theory Spec2Isabelle
  imports Main "HOL-Library.State_Monad"
begin

section \<open>The cursor of the editor: data model\<close>

text \<open>
  The development embeds \<^verbatim>\<open>src/js/utils/cursor.js\<close>, the class \<^verbatim>\<open>Cursor\<close>.
  A native node is identified by a natural number (its address); a boundary point is a
  node with an offset, as the platform's selection and range objects report them.
  JavaScript numbers that hold offsets and lengths are integers here.
\<close>

type_synonym node = nat
type_synonym bpoint = "node \<times> int"

text \<open>Exceptions of the source and of the platform, as values.\<close>

datatype error = TypeError | IndexSizeError | InvalidStateError | CollaboratorError

text \<open>\<^verbatim>\<open>DIRECTION\<close> of \<^verbatim>\<open>utils/key\<close>; a missing direction (undefined or null) is \<open>None\<close>.\<close>

datatype direction = FORWARD | BACKWARD

text \<open>
  A render node, with the two things the cursor reads from it: \<^verbatim>\<open>renderNode.element\<close>
  and \<^verbatim>\<open>renderNode.postNode.isCardSection\<close> (the back reference to the logical node is
  flattened to the only field read through it).
\<close>

record render_node =
  element :: node
  postNode_isCardSection :: bool

record marker =
  marker_renderNode :: "render_node option"

text \<open>A section of the post: \<^verbatim>\<open>isCardSection\<close>, \<^verbatim>\<open>isBlank\<close>, \<^verbatim>\<open>renderNode\<close>, \<^verbatim>\<open>length\<close>.\<close>

record sect =
  isCardSection :: bool
  isBlank :: bool
  section_renderNode :: "render_node option"
  section_length :: int

text \<open>A position: \<^verbatim>\<open>section\<close>, \<^verbatim>\<open>offset\<close>, \<^verbatim>\<open>marker\<close> (may be absent), \<^verbatim>\<open>offsetInMarker\<close>.\<close>

record position =
  pos_section :: sect
  pos_offset :: int
  pos_marker :: "marker option"
  pos_offsetInMarker :: int

text \<open>
  Modelled from the spec: the class \<^verbatim>\<open>Range\<close> of \<^verbatim>\<open>utils/cursor/range\<close> is not part of
  the source at hand. The spec gives it a head, a tail and a direction,
  and a sentinel \<^verbatim>\<open>emptyRange()\<close> without endpoints that means "no cursor".
  \<open>NewRange h t d\<close> is \<^verbatim>\<open>new Range(h, t, d)\<close>.
\<close>

datatype cursor_range = EmptyRange | NewRange position position "direction option"

subsection \<open>The native selection of the platform\<close>

text \<open>
  A platform range has a start and an end boundary point. The selection object
  holds its ranges (\<^verbatim>\<open>rangeCount\<close>, \<^verbatim>\<open>getRangeAt\<close>) and the anchor and the focus
  (\<^verbatim>\<open>anchorNode\<close>, \<^verbatim>\<open>anchorOffset\<close>, \<^verbatim>\<open>focusNode\<close>, \<^verbatim>\<open>focusOffset\<close>), which are
  null when nothing is selected.
\<close>

record dom_range =
  range_start :: bpoint
  range_end :: bpoint

record selection =
  sel_ranges :: "dom_range list"
  anchor :: "bpoint option"
  focus :: "bpoint option"

definition collapsed :: "dom_range \<Rightarrow> bool" where
  "collapsed r = (range_start r = range_end r)"

definition anchorNode :: "selection \<Rightarrow> node option" where
  "anchorNode sel = map_option fst (anchor sel)"

definition focusNode :: "selection \<Rightarrow> node option" where
  "focusNode sel = map_option fst (focus sel)"

text \<open>
  What the cursor takes from its editor, from the platform and from the modules it
  imports. \<open>containsNode\<close> is \<^verbatim>\<open>containsNode\<close> of \<^verbatim>\<open>utils/dom-utils\<close> (its second
  argument may be null); \<open>findRenderNodeFromElement\<close>, \<open>fromNode\<close>, \<open>readRange\<close>,
  \<open>Range_create\<close> and \<open>Position_new\<close> are the render tree's lookup,
  \<^verbatim>\<open>Position.fromNode(renderTree, node, offset)\<close>, \<^verbatim>\<open>post.sections.readRange\<close>,
  \<^verbatim>\<open>Range.create\<close> and \<^verbatim>\<open>new Position(section, offset)\<close>; \<open>bp_before\<close> is the
  platform's order of boundary points in the document, \<open>document\<close> the document
  node, \<open>nodeLength\<close> the platform's length of a node, and \<open>has_extend\<close> says
  whether the selection object has the method \<^verbatim>\<open>extend\<close>. \<open>collapsed_direction\<close> is
  the direction (or none) that \<^verbatim>\<open>comparePosition\<close> reports when anchor and focus
  coincide.
\<close>

record env =
  editor_element :: node
  document :: node
  containsNode :: "node \<Rightarrow> node option \<Rightarrow> bool"
  findRenderNodeFromElement :: "node \<Rightarrow> render_node option"
  firstChild :: "node \<Rightarrow> node option"
  lastChild :: "node \<Rightarrow> node option"
  nodeLength :: "node \<Rightarrow> int"
  bp_before :: "bpoint \<Rightarrow> bpoint \<Rightarrow> bool"
  has_extend :: bool
  fromNode :: "node \<Rightarrow> int \<Rightarrow> error + position"
  readRange :: "sect \<Rightarrow> sect \<Rightarrow> sect list"
  Range_create :: "sect \<Rightarrow> int \<Rightarrow> sect \<Rightarrow> int \<Rightarrow> cursor_range"
  Position_new :: "sect \<Rightarrow> int \<Rightarrow> position"
  selection_toString :: "selection \<Rightarrow> string"
  collapsed_direction :: "direction option"

section \<open>Queries\<close>

text \<open>
  The getter \<^verbatim>\<open>_selectionRange\<close>: null when \<^verbatim>\<open>rangeCount\<close> is 0, else
  \<^verbatim>\<open>getRangeAt(0)\<close>. Private members of the class carry the prefix \<open>priv_\<close>
  in place of the underscore.
\<close>

definition priv_selectionRange :: "selection \<Rightarrow> dom_range option" where
  "priv_selectionRange sel = (case sel_ranges sel of [] \<Rightarrow> None | r # _ \<Rightarrow> Some r)"

definition priv_hasSelection :: "env \<Rightarrow> selection \<Rightarrow> bool" where
  "priv_hasSelection e sel =
     (case priv_selectionRange sel of
        None \<Rightarrow> False
      | Some r \<Rightarrow>
          if collapsed r then False
          else containsNode e (editor_element e) (anchorNode sel) \<and>
               containsNode e (editor_element e) (focusNode sel))"

definition priv_hasCollapsedSelection :: "env \<Rightarrow> selection \<Rightarrow> bool" where
  "priv_hasCollapsedSelection e sel =
     (case priv_selectionRange sel of
        None \<Rightarrow> False
      | Some r \<Rightarrow> containsNode e (editor_element e) (anchorNode sel))"

definition hasCursor :: "env \<Rightarrow> selection \<Rightarrow> bool" where
  "hasCursor e sel = (priv_hasCollapsedSelection e sel \<or> priv_hasSelection e sel)"

definition hasSelection :: "env \<Rightarrow> selection \<Rightarrow> bool" where
  "hasSelection e sel = priv_hasSelection e sel"

definition isAddressable :: "env \<Rightarrow> node \<Rightarrow> bool" where
  "isAddressable e el =
     (case findRenderNodeFromElement e el of
        None \<Rightarrow> False
      | Some renderNode \<Rightarrow>
          (let renderedElement = element renderNode in
           if postNode_isCardSection renderNode \<and>
              el \<noteq> renderedElement \<and>
              Some el \<noteq> firstChild e renderedElement \<and>
              Some el \<noteq> lastChild e renderedElement
           then False
           else True))"

text \<open>
  Modelled from the spec: \<^verbatim>\<open>comparePosition\<close> of \<^verbatim>\<open>utils/selection-utils\<close> is not part
  of the source at hand. The spec has it read the native anchor and focus and
  determine head, tail and direction by a comparison in document order: the
  selection is backward when the focus comes before the anchor and forward when the
  anchor comes before the focus. The spec fixes no direction for a selection whose
  anchor and focus coincide; there the direction is \<open>collapsed_direction\<close>, whatever
  the collaborator reports. A null anchor or focus cannot be compared.
\<close>

record compared =
  headNode :: node
  headOffset :: int
  tailNode :: node
  tailOffset :: int
  cmp_direction :: "direction option"

definition comparePosition :: "env \<Rightarrow> selection \<Rightarrow> error + compared" where
  "comparePosition e sel =
     (case anchor sel of
        None \<Rightarrow> Inl TypeError
      | Some a \<Rightarrow>
          (case focus sel of
             None \<Rightarrow> Inl TypeError
           | Some f \<Rightarrow>
               if bp_before e f a
               then Inr \<lparr>headNode = fst f, headOffset = snd f,
                         tailNode = fst a, tailOffset = snd a,
                         cmp_direction = Some BACKWARD\<rparr>
               else if bp_before e a f
               then Inr \<lparr>headNode = fst a, headOffset = snd a,
                         tailNode = fst f, tailOffset = snd f,
                         cmp_direction = Some FORWARD\<rparr>
               else Inr \<lparr>headNode = fst a, headOffset = snd a,
                         tailNode = fst f, tailOffset = snd f,
                         cmp_direction = collapsed_direction e\<rparr>))"

text \<open>The getter \<^verbatim>\<open>offsets\<close>.\<close>

definition offsets :: "env \<Rightarrow> selection \<Rightarrow> error + cursor_range" where
  "offsets e sel =
     (if \<not> hasCursor e sel then Inr EmptyRange
      else case comparePosition e sel of
             Inl err \<Rightarrow> Inl err
           | Inr c \<Rightarrow>
               (case fromNode e (headNode c) (headOffset c) of
                  Inl err \<Rightarrow> Inl err
                | Inr headPosition \<Rightarrow>
                    (case fromNode e (tailNode c) (tailOffset c) of
                       Inl err \<Rightarrow> Inl err
                     | Inr tailPosition \<Rightarrow>
                         Inr (NewRange headPosition tailPosition (cmp_direction c)))))"

text \<open>
  The getter \<^verbatim>\<open>activeSections\<close>. The branch for the empty range cannot be reached
  (when there is a cursor, \<open>offsets\<close> builds a range with \<open>NewRange\<close>); the spec gives
  the sections of the empty range as the empty sequence.
\<close>

definition activeSections :: "env \<Rightarrow> selection \<Rightarrow> error + sect list" where
  "activeSections e sel =
     (if \<not> hasCursor e sel then Inr []
      else case offsets e sel of
             Inl err \<Rightarrow> Inl err
           | Inr EmptyRange \<Rightarrow> Inr []
           | Inr (NewRange h t d) \<Rightarrow> Inr (readRange e (pos_section h) (pos_section t)))"

definition selectedText :: "env \<Rightarrow> selection \<Rightarrow> string" where
  "selectedText e sel = selection_toString e sel"

section \<open>The platform's ranges and selection\<close>

text \<open>
  The operations of the platform that the cursor calls, after the DOM standard.
  A new range starts and ends at the start of the document. Setting a boundary
  point of a range needs a node (null is a type error) and an offset within the
  node's length; setting the start after the end moves the end along, and setting
  the end before the start moves the start along.
\<close>

definition createRange :: "env \<Rightarrow> dom_range" where
  "createRange e = \<lparr>range_start = (document e, 0), range_end = (document e, 0)\<rparr>"

definition valid_offset :: "env \<Rightarrow> node \<Rightarrow> int \<Rightarrow> bool" where
  "valid_offset e n off = (0 \<le> off \<and> off \<le> nodeLength e n)"

definition setStart :: "env \<Rightarrow> dom_range \<Rightarrow> node option \<Rightarrow> int \<Rightarrow> error + dom_range" where
  "setStart e r nd off =
     (case nd of
        None \<Rightarrow> Inl TypeError
      | Some n \<Rightarrow>
          if \<not> valid_offset e n off then Inl IndexSizeError
          else if bp_before e (range_end r) (n, off)
               then Inr \<lparr>range_start = (n, off), range_end = (n, off)\<rparr>
               else Inr (r\<lparr>range_start := (n, off)\<rparr>))"

definition setEnd :: "env \<Rightarrow> dom_range \<Rightarrow> node option \<Rightarrow> int \<Rightarrow> error + dom_range" where
  "setEnd e r nd off =
     (case nd of
        None \<Rightarrow> Inl TypeError
      | Some n \<Rightarrow>
          if \<not> valid_offset e n off then Inl IndexSizeError
          else if bp_before e (n, off) (range_start r)
               then Inr \<lparr>range_start = (n, off), range_end = (n, off)\<rparr>
               else Inr (r\<lparr>range_end := (n, off)\<rparr>))"

definition removeAllRanges :: "selection \<Rightarrow> selection" where
  "removeAllRanges sel = \<lparr>sel_ranges = [], anchor = None, focus = None\<rparr>"

text \<open>Adding a range to a selection that already has one does nothing.\<close>

definition addRange :: "selection \<Rightarrow> dom_range \<Rightarrow> selection" where
  "addRange sel r =
     (if sel_ranges sel \<noteq> [] then sel
      else \<lparr>sel_ranges = [r], anchor = Some (range_start r), focus = Some (range_end r)\<rparr>)"

text \<open>
  \<^verbatim>\<open>extend\<close> keeps the anchor and moves the focus; the range of the selection runs
  between the two in document order. It fails on an empty selection.
\<close>

definition extend :: "env \<Rightarrow> selection \<Rightarrow> node option \<Rightarrow> int \<Rightarrow> error + selection" where
  "extend e sel nd off =
     (case nd of
        None \<Rightarrow> Inl TypeError
      | Some n \<Rightarrow>
          if sel_ranges sel = [] then Inl InvalidStateError
          else (case anchor sel of
                  None \<Rightarrow> Inl InvalidStateError
                | Some oldAnchor \<Rightarrow>
                    if \<not> valid_offset e n off then Inl IndexSizeError
                    else (let newFocus = (n, off);
                              newRange =
                                (if oldAnchor = newFocus \<or> bp_before e oldAnchor newFocus
                                 then \<lparr>range_start = oldAnchor, range_end = newFocus\<rparr>
                                 else \<lparr>range_start = newFocus, range_end = oldAnchor\<rparr>)
                          in Inr \<lparr>sel_ranges = [newRange],
                                  anchor = Some oldAnchor, focus = Some newFocus\<rparr>)))"

section \<open>Commands\<close>

text \<open>
  Modelled from the spec: \<^verbatim>\<open>clearSelection\<close> of \<^verbatim>\<open>utils/selection-utils\<close> is not part
  of the source at hand; the spec has it remove the native selection.
\<close>

definition clearSelection :: "selection \<Rightarrow> selection" where
  "clearSelection sel = removeAllRanges sel"

text \<open>
  A command returns normally (\<open>Inr ()\<close>) or throws, and leaves a selection behind
  in both cases.
\<close>

type_synonym command_result = "(error + unit) \<times> selection"

definition priv_findNodeForPosition :: "env \<Rightarrow> position \<Rightarrow> error + (node option \<times> int)" where
  "priv_findNodeForPosition e p =
     (let s = pos_section p in
      if isCardSection s then
        (case section_renderNode s of
           None \<Rightarrow> Inl TypeError
         | Some rn \<Rightarrow>
             if pos_offset p = 0 then Inr (firstChild e (element rn), 0)
             else Inr (lastChild e (element rn), 0))
      else if isBlank s then
        (case section_renderNode s of
           None \<Rightarrow> Inl TypeError
         | Some rn \<Rightarrow> Inr (Some (element rn), 0))
      else
        (case pos_marker p of
           None \<Rightarrow> Inl TypeError
         | Some m \<Rightarrow>
             (case marker_renderNode m of
                None \<Rightarrow> Inl TypeError
              | Some rn \<Rightarrow> Inr (Some (element rn), pos_offsetInMarker p))))"

definition priv_moveToNode ::
  "env \<Rightarrow> node option \<Rightarrow> int \<Rightarrow> node option \<Rightarrow> int \<Rightarrow> direction option \<Rightarrow>
   selection \<Rightarrow> command_result" where
  "priv_moveToNode e nd off endNode endOffset dir sel =
     (let sel1 = clearSelection sel;
          backward = (dir = Some BACKWARD);
          nd' = (if backward then endNode else nd);
          off' = (if backward then endOffset else off);
          endNode' = (if backward then nd else endNode);
          endOffset' = (if backward then off else endOffset)
      in case setStart e (createRange e) nd' off' of
           Inl err \<Rightarrow> (Inl err, sel1)
         | Inr r \<Rightarrow>
             if backward \<and> has_extend e then
               (let sel2 = addRange sel1 r in
                case extend e sel2 endNode' endOffset' of
                  Inl err \<Rightarrow> (Inl err, sel2)
                | Inr sel3 \<Rightarrow> (Inr (), sel3))
             else
               (case setEnd e r endNode' endOffset' of
                  Inl err \<Rightarrow> (Inl err, sel1)
                | Inr r' \<Rightarrow> (Inr (), addRange sel1 r')))"

text \<open>
  \<^verbatim>\<open>selectRange\<close>. The empty range has no endpoints to read a section from.
\<close>

definition selectRange :: "env \<Rightarrow> cursor_range \<Rightarrow> selection \<Rightarrow> command_result" where
  "selectRange e rng sel =
     (case rng of
        EmptyRange \<Rightarrow> (Inl TypeError, sel)
      | NewRange h t dir \<Rightarrow>
          (case priv_findNodeForPosition e h of
             Inl err \<Rightarrow> (Inl err, sel)
           | Inr (hNode, hOffset) \<Rightarrow>
               (case priv_findNodeForPosition e t of
                  Inl err \<Rightarrow> (Inl err, sel)
                | Inr (tNode, tOffset) \<Rightarrow>
                    priv_moveToNode e hNode hOffset tNode tOffset dir sel)))"

definition moveToPosition :: "env \<Rightarrow> position \<Rightarrow> selection \<Rightarrow> command_result" where
  "moveToPosition e p sel = selectRange e (NewRange p p None) sel"

definition moveToSection :: "env \<Rightarrow> sect \<Rightarrow> int \<Rightarrow> selection \<Rightarrow> command_result" where
  "moveToSection e s offsetInSection sel =
     moveToPosition e (Position_new e s offsetInSection) sel"

text \<open>Reading an array at an index: \<^verbatim>\<open>undefined\<close> (here \<open>None\<close>) out of range.\<close>

definition js_index :: "'a list \<Rightarrow> int \<Rightarrow> 'a option" where
  "js_index xs i = (if 0 \<le> i \<and> i < int (length xs) then Some (xs ! nat i) else None)"

text \<open>
  \<^verbatim>\<open>selectSections\<close>. Reading \<^verbatim>\<open>length\<close> of an undefined tail section is a type error,
  thrown before anything else is called.
\<close>

definition selectSections :: "env \<Rightarrow> sect list \<Rightarrow> selection \<Rightarrow> command_result" where
  "selectSections e sections sel =
     (let headSection = js_index sections 0;
          tailSection = js_index sections (int (length sections) - 1)
      in case tailSection of
           None \<Rightarrow> (Inl TypeError, sel)
         | Some t \<Rightarrow>
             (case headSection of
                None \<Rightarrow> (Inl TypeError, sel)
              | Some h \<Rightarrow> selectRange e (Range_create e h 0 t (section_length t)) sel))"

text \<open>
  Selecting a range and reading it back: \<^verbatim>\<open>selectRange(r)\<close>, then \<^verbatim>\<open>offsets\<close>, gives
  \<open>r\<close> again, with its head, its tail and its direction.
\<close>

definition reads_back :: "env \<Rightarrow> cursor_range \<Rightarrow> selection \<Rightarrow> bool" where
  "reads_back e r sel = (offsets e (snd (selectRange e r sel)) = Inr r)"

section \<open>The members as computations on the selection object\<close>

text \<open>
  The selection object is the one piece of state the cursor shares with the
  platform. Here every access to it is a step of a computation on that state: the
  platform's getters hand the selection on as they found it, and
  \<^verbatim>\<open>removeAllRanges\<close>, \<^verbatim>\<open>addRange\<close> and \<^verbatim>\<open>extend\<close> replace it. \<^verbatim>\<open>getRangeAt\<close> is read
  only below \<^verbatim>\<open>rangeCount\<close>. The collaborators that are handed the selection object
  (\<^verbatim>\<open>comparePosition\<close>, and \<^verbatim>\<open>toString\<close> of the platform) read it.
\<close>

definition sel_rangeCount :: "(selection, nat) state" where
  "sel_rangeCount = State (\<lambda>sel. (length (sel_ranges sel), sel))"

definition sel_getRangeAt :: "nat \<Rightarrow> (selection, dom_range) state" where
  "sel_getRangeAt i = State (\<lambda>sel. (sel_ranges sel ! i, sel))"

definition sel_anchorNode :: "(selection, node option) state" where
  "sel_anchorNode = State (\<lambda>sel. (anchorNode sel, sel))"

definition sel_focusNode :: "(selection, node option) state" where
  "sel_focusNode = State (\<lambda>sel. (focusNode sel, sel))"

definition sel_toString :: "env \<Rightarrow> (selection, string) state" where
  "sel_toString e = State (\<lambda>sel. (selection_toString e sel, sel))"

definition sel_comparePosition :: "env \<Rightarrow> (selection, error + compared) state" where
  "sel_comparePosition e = State (\<lambda>sel. (comparePosition e sel, sel))"

definition sel_removeAllRanges :: "(selection, unit) state" where
  "sel_removeAllRanges = State (\<lambda>sel. ((), removeAllRanges sel))"

text \<open>The queries of the class, access by access.\<close>

definition priv_selectionRange_op :: "(selection, dom_range option) state" where
  "priv_selectionRange_op =
     do {
       n \<leftarrow> sel_rangeCount;
       if n = 0 then State_Monad.return None
       else do { r \<leftarrow> sel_getRangeAt 0; State_Monad.return (Some r) }
     }"

definition priv_hasSelection_op :: "env \<Rightarrow> (selection, bool) state" where
  "priv_hasSelection_op e =
     do {
       sr \<leftarrow> priv_selectionRange_op;
       case sr of
         None \<Rightarrow> State_Monad.return False
       | Some r \<Rightarrow>
           if collapsed r then State_Monad.return False
           else do {
             a \<leftarrow> sel_anchorNode;
             if containsNode e (editor_element e) a
             then do {
               f \<leftarrow> sel_focusNode;
               State_Monad.return (containsNode e (editor_element e) f)
             }
             else State_Monad.return False
           }
     }"

definition priv_hasCollapsedSelection_op :: "env \<Rightarrow> (selection, bool) state" where
  "priv_hasCollapsedSelection_op e =
     do {
       sr \<leftarrow> priv_selectionRange_op;
       case sr of
         None \<Rightarrow> State_Monad.return False
       | Some r \<Rightarrow>
           do {
             a \<leftarrow> sel_anchorNode;
             State_Monad.return (containsNode e (editor_element e) a)
           }
     }"

definition hasCursor_op :: "env \<Rightarrow> (selection, bool) state" where
  "hasCursor_op e =
     do {
       c \<leftarrow> priv_hasCollapsedSelection_op e;
       if c then State_Monad.return True else priv_hasSelection_op e
     }"

definition hasSelection_op :: "env \<Rightarrow> (selection, bool) state" where
  "hasSelection_op e = priv_hasSelection_op e"

text \<open>\<^verbatim>\<open>isAddressable\<close> asks the render tree and the element; it has no access to the selection.\<close>

definition isAddressable_op :: "env \<Rightarrow> node \<Rightarrow> (selection, bool) state" where
  "isAddressable_op e el = State_Monad.return (isAddressable e el)"

definition offsets_op :: "env \<Rightarrow> (selection, error + cursor_range) state" where
  "offsets_op e =
     do {
       c \<leftarrow> hasCursor_op e;
       if \<not> c then State_Monad.return (Inr EmptyRange)
       else do {
         cmp \<leftarrow> sel_comparePosition e;
         State_Monad.return
           (case cmp of
              Inl err \<Rightarrow> Inl err
            | Inr c \<Rightarrow>
                (case fromNode e (headNode c) (headOffset c) of
                   Inl err \<Rightarrow> Inl err
                 | Inr headPosition \<Rightarrow>
                     (case fromNode e (tailNode c) (tailOffset c) of
                        Inl err \<Rightarrow> Inl err
                      | Inr tailPosition \<Rightarrow>
                          Inr (NewRange headPosition tailPosition (cmp_direction c)))))
       }
     }"

definition activeSections_op :: "env \<Rightarrow> (selection, error + sect list) state" where
  "activeSections_op e =
     do {
       c \<leftarrow> hasCursor_op e;
       if \<not> c then State_Monad.return (Inr [])
       else do {
         r \<leftarrow> offsets_op e;
         State_Monad.return
           (case r of
              Inl err \<Rightarrow> Inl err
            | Inr EmptyRange \<Rightarrow> Inr []
            | Inr (NewRange h t d) \<Rightarrow> Inr (readRange e (pos_section h) (pos_section t)))
       }
     }"

definition selectedText_op :: "env \<Rightarrow> (selection, string) state" where
  "selectedText_op e = sel_toString e"

text \<open>
  The commands. \<^verbatim>\<open>clearSelection\<close> of the class calls the function of the same name,
  which removes all ranges; the others are the state transformers of the section on
  commands.
\<close>

definition clearSelection_op :: "(selection, unit) state" where
  "clearSelection_op = sel_removeAllRanges"

definition selectRange_op :: "env \<Rightarrow> cursor_range \<Rightarrow> (selection, error + unit) state" where
  "selectRange_op e r = State (selectRange e r)"

definition moveToPosition_op :: "env \<Rightarrow> position \<Rightarrow> (selection, error + unit) state" where
  "moveToPosition_op e p = State (moveToPosition e p)"

definition moveToSection_op :: "env \<Rightarrow> sect \<Rightarrow> int \<Rightarrow> (selection, error + unit) state" where
  "moveToSection_op e s off = State (moveToSection e s off)"

definition selectSections_op :: "env \<Rightarrow> sect list \<Rightarrow> (selection, error + unit) state" where
  "selectSections_op e ss = State (selectSections e ss)"

text \<open>The public interface: a call, the value it returns and the selection it leaves.\<close>

datatype cursor_call =
    HasCursor
  | HasSelection
  | IsAddressable node
  | Offsets
  | ActiveSections
  | SelectedText
  | ClearSelection
  | SelectRange cursor_range
  | MoveToPosition position
  | MoveToSection sect int
  | SelectSections "sect list"

datatype outcome =
    Bool_result bool
  | Range_result "error + cursor_range"
  | Sections_result "error + sect list"
  | Text_result string
  | Command_result "error + unit"

fun is_query :: "cursor_call \<Rightarrow> bool" where
  "is_query HasCursor = True"
| "is_query HasSelection = True"
| "is_query (IsAddressable el) = True"
| "is_query Offsets = True"
| "is_query ActiveSections = True"
| "is_query SelectedText = True"
| "is_query c = False"

fun call :: "env \<Rightarrow> cursor_call \<Rightarrow> (selection, outcome) state" where
  "call e HasCursor = do { b \<leftarrow> hasCursor_op e; State_Monad.return (Bool_result b) }"
| "call e HasSelection = do { b \<leftarrow> hasSelection_op e; State_Monad.return (Bool_result b) }"
| "call e (IsAddressable el) =
     do { b \<leftarrow> isAddressable_op e el; State_Monad.return (Bool_result b) }"
| "call e Offsets = do { r \<leftarrow> offsets_op e; State_Monad.return (Range_result r) }"
| "call e ActiveSections =
     do { ss \<leftarrow> activeSections_op e; State_Monad.return (Sections_result ss) }"
| "call e SelectedText = do { t \<leftarrow> selectedText_op e; State_Monad.return (Text_result t) }"
| "call e ClearSelection =
     do { u \<leftarrow> clearSelection_op; State_Monad.return (Command_result (Inr u)) }"
| "call e (SelectRange r) =
     do { res \<leftarrow> selectRange_op e r; State_Monad.return (Command_result res) }"
| "call e (MoveToPosition p) =
     do { res \<leftarrow> moveToPosition_op e p; State_Monad.return (Command_result res) }"
| "call e (MoveToSection s off) =
     do { res \<leftarrow> moveToSection_op e s off; State_Monad.return (Command_result res) }"
| "call e (SelectSections ss) =
     do { res \<leftarrow> selectSections_op e ss; State_Monad.return (Command_result res) }"

section \<open>An example document\<close>

text \<open>
  The post of the spec's scenario: a paragraph with the text AB, a card, a paragraph
  with the text CD. The document is node 0 and the editor's element node 1; the
  first paragraph is node 2 with its text node 3, the card is node 4 with the
  children 5, 6 and 7 (the first and the last are its boundary text nodes), the
  second paragraph is node 8 with its text node 9. Node 10 lies outside the editor.
  Nodes are numbered in document order, and a boundary point in a text node comes
  before another by node, then by offset.
\<close>

definition ex_AB :: marker where
  "ex_AB = \<lparr>marker_renderNode = Some \<lparr>element = 3, postNode_isCardSection = False\<rparr>\<rparr>"

definition ex_CD :: marker where
  "ex_CD = \<lparr>marker_renderNode = Some \<lparr>element = 9, postNode_isCardSection = False\<rparr>\<rparr>"

definition ex_P1 :: sect where
  "ex_P1 = \<lparr>isCardSection = False, isBlank = False,
            section_renderNode = Some \<lparr>element = 2, postNode_isCardSection = False\<rparr>,
            section_length = 2\<rparr>"

definition ex_Card :: sect where
  "ex_Card = \<lparr>isCardSection = True, isBlank = False,
              section_renderNode = Some \<lparr>element = 4, postNode_isCardSection = True\<rparr>,
              section_length = 1\<rparr>"

definition ex_P2 :: sect where
  "ex_P2 = \<lparr>isCardSection = False, isBlank = False,
            section_renderNode = Some \<lparr>element = 8, postNode_isCardSection = False\<rparr>,
            section_length = 2\<rparr>"

definition ex_Position_new :: "sect \<Rightarrow> int \<Rightarrow> position" where
  "ex_Position_new s off =
     (if isCardSection s \<or> isBlank s
      then \<lparr>pos_section = s, pos_offset = off, pos_marker = None, pos_offsetInMarker = 0\<rparr>
      else \<lparr>pos_section = s, pos_offset = off,
             pos_marker = Some (if s = ex_P1 then ex_AB else ex_CD),
             pos_offsetInMarker = off\<rparr>)"

definition ex_fromNode :: "node \<Rightarrow> int \<Rightarrow> error + position" where
  "ex_fromNode n off =
     (if n = 3 then Inr (ex_Position_new ex_P1 off)
      else if n = 9 then Inr (ex_Position_new ex_P2 off)
      else if n = 5 then Inr (ex_Position_new ex_Card 0)
      else if n = 7 then Inr (ex_Position_new ex_Card (section_length ex_Card))
      else Inl CollaboratorError)"

definition ex_findRenderNode :: "node \<Rightarrow> render_node option" where
  "ex_findRenderNode n =
     (if n = 2 then section_renderNode ex_P1
      else if n = 3 then marker_renderNode ex_AB
      else if 4 \<le> n \<and> n \<le> 7 then section_renderNode ex_Card
      else if n = 8 then section_renderNode ex_P2
      else if n = 9 then marker_renderNode ex_CD
      else None)"

definition ex_firstChild :: "node \<Rightarrow> node option" where
  "ex_firstChild n =
     (if n = 0 then Some 1 else if n = 1 then Some 2 else if n = 2 then Some 3
      else if n = 4 then Some 5 else if n = 8 then Some 9 else None)"

definition ex_lastChild :: "node \<Rightarrow> node option" where
  "ex_lastChild n =
     (if n = 0 then Some 10 else if n = 1 then Some 8 else if n = 2 then Some 3
      else if n = 4 then Some 7 else if n = 8 then Some 9 else None)"

definition ex_nodeLength :: "node \<Rightarrow> int" where
  "ex_nodeLength n =
     (if n = 0 then 2 else if n = 1 then 3 else if n = 2 then 1 else if n = 3 then 2
      else if n = 4 then 3 else if n = 5 then 1 else if n = 7 then 1
      else if n = 8 then 1 else if n = 9 then 2 else 0)"

definition ex_containsNode :: "node \<Rightarrow> node option \<Rightarrow> bool" where
  "ex_containsNode root c =
     (case c of None \<Rightarrow> False | Some n \<Rightarrow> n = root \<or> (root = 1 \<and> 1 \<le> n \<and> n \<le> 9))"

definition ex_before :: "bpoint \<Rightarrow> bpoint \<Rightarrow> bool" where
  "ex_before a b = (fst a < fst b \<or> (fst a = fst b \<and> snd a < snd b))"

definition ex_readRange :: "sect \<Rightarrow> sect \<Rightarrow> sect list" where
  "ex_readRange h t =
     takeWhile (\<lambda>s. s \<noteq> t) (dropWhile (\<lambda>s. s \<noteq> h) [ex_P1, ex_Card, ex_P2]) @ [t]"

definition ex_Range_create :: "sect \<Rightarrow> int \<Rightarrow> sect \<Rightarrow> int \<Rightarrow> cursor_range" where
  "ex_Range_create h ho t to' =
     NewRange (ex_Position_new h ho) (ex_Position_new t to') None"

text \<open>The example's environment, on a platform with or without \<^verbatim>\<open>extend\<close>.\<close>

definition ex_env :: "bool \<Rightarrow> env" where
  "ex_env ext =
     \<lparr>editor_element = 1, document = 0, containsNode = ex_containsNode,
      findRenderNodeFromElement = ex_findRenderNode,
      firstChild = ex_firstChild, lastChild = ex_lastChild,
      nodeLength = ex_nodeLength, bp_before = ex_before, has_extend = ext,
      fromNode = ex_fromNode, readRange = ex_readRange,
      Range_create = ex_Range_create, Position_new = ex_Position_new,
      selection_toString = (\<lambda>sel. []), collapsed_direction = None\<rparr>"

definition ex_empty :: selection where
  "ex_empty = \<lparr>sel_ranges = [], anchor = None, focus = None\<rparr>"

text \<open>
  The example on a platform with \<^verbatim>\<open>extend\<close>, for each direction that
  \<^verbatim>\<open>comparePosition\<close> may report when anchor and focus coincide; and a caret in the
  text CD.
\<close>

definition ex_env_tie :: "direction option \<Rightarrow> env" where
  "ex_env_tie tie = (ex_env True)\<lparr>collapsed_direction := tie\<rparr>"

definition ex_caret :: position where
  "ex_caret = ex_Position_new ex_P2 1"

text \<open>A selection across the example, from the text AB to the text CD.\<close>

definition ex_across :: selection where
  "ex_across = \<lparr>sel_ranges = [\<lparr>range_start = (3, 0), range_end = (9, 2)\<rparr>],
                anchor = Some (3, 0), focus = Some (9, 2)\<rparr>"

section \<open>Facts about the example\<close>

lemmas ex_defs = ex_env_def ex_containsNode_def ex_findRenderNode_def ex_firstChild_def
  ex_lastChild_def ex_nodeLength_def ex_before_def ex_fromNode_def ex_Position_new_def
  ex_P1_def ex_P2_def ex_Card_def ex_AB_def ex_CD_def ex_empty_def ex_Range_create_def
  ex_env_tie_def ex_caret_def

section \<open>Presence of a cursor\<close>

text \<open>
  \<^verbatim>\<open>_hasCollapsedSelection\<close> does not look at the \<^verbatim>\<open>collapsed\<close> flag of the range, so
  the disjunction in \<^verbatim>\<open>hasCursor\<close> comes down to its first half: there is a range, and
  the anchor node is inside the editor's element. The focus node plays no part.
\<close>

lemma hasCursor_iff_anchor:
  "hasCursor e sel \<longleftrightarrow>
     sel_ranges sel \<noteq> [] \<and> containsNode e (editor_element e) (anchorNode sel)"
  by (auto simp: hasCursor_def priv_hasCollapsedSelection_def priv_hasSelection_def
      priv_selectionRange_def split: list.splits)

text \<open>
  Claim C3 says that \<^verbatim>\<open>hasCursor()\<close> is true exactly when a collapsed selection lies
  inside the editor's element or a selection that is not collapsed has both its
  anchor and its focus inside it; the comment above \<^verbatim>\<open>hasCursor\<close> says the same. The
  code answers true for a selection that is not collapsed, starts in the text AB of
  the example and ends at node 10 outside the editor.
\<close>

theorem hasCursor_focus_outside:
  "hasCursor (ex_env True)
     \<lparr>sel_ranges = [\<lparr>range_start = (3, 1), range_end = (10, 0)\<rparr>],
      anchor = Some (3, 1), focus = Some (10, 0)\<rparr> \<and>
   \<not> collapsed \<lparr>range_start = (3, 1), range_end = (10, 0)\<rparr> \<and>
   \<not> containsNode (ex_env True) (editor_element (ex_env True)) (Some 10)"
  by (simp add: hasCursor_iff_anchor ex_defs anchorNode_def collapsed_def)

text \<open>
  Claim C4: when the anchor node and the focus node both lie outside the editor's
  element, \<^verbatim>\<open>hasCursor()\<close> is false.
\<close>

theorem hasCursor_outside:
  assumes "\<not> containsNode e (editor_element e) (anchorNode sel)"
      and "\<not> containsNode e (editor_element e) (focusNode sel)"
  shows "\<not> hasCursor e sel"
  using assms by (simp add: hasCursor_iff_anchor)

text \<open>A selection inside node 10, outside the editor of the example.\<close>

theorem hasCursor_outside_witness:
  "\<not> containsNode (ex_env True) (editor_element (ex_env True))
        (anchorNode \<lparr>sel_ranges = [\<lparr>range_start = (10, 0), range_end = (10, 1)\<rparr>],
                     anchor = Some (10, 0), focus = Some (10, 1)\<rparr>) \<and>
   \<not> hasCursor (ex_env True)
        \<lparr>sel_ranges = [\<lparr>range_start = (10, 0), range_end = (10, 1)\<rparr>],
         anchor = Some (10, 0), focus = Some (10, 1)\<rparr>"
  using hasCursor_outside [of "ex_env True"
      "\<lparr>sel_ranges = [\<lparr>range_start = (10, 0), range_end = (10, 1)\<rparr>],
         anchor = Some (10, 0), focus = Some (10, 1)\<rparr>"]
  by (simp add: ex_defs anchorNode_def focusNode_def)

text \<open>
  Claim C7: without a cursor, \<^verbatim>\<open>offsets\<close> returns the empty range and
  \<^verbatim>\<open>activeSections\<close> the empty sequence; both return normally.
\<close>

theorem no_cursor_empty:
  assumes "\<not> hasCursor e sel"
  shows "offsets e sel = Inr EmptyRange \<and> activeSections e sel = Inr []"
  using assms by (simp add: offsets_def activeSections_def)

text \<open>The empty selection has no cursor.\<close>

theorem no_cursor_empty_witness:
  "\<not> hasCursor (ex_env True) ex_empty \<and>
   offsets (ex_env True) ex_empty = Inr EmptyRange \<and>
   activeSections (ex_env True) ex_empty = Inr []"
  using no_cursor_empty [of "ex_env True" ex_empty]
  by (simp add: hasCursor_iff_anchor ex_empty_def)

section \<open>Addressable elements\<close>

text \<open>
  Claim C6: \<^verbatim>\<open>isAddressable(element)\<close> is true exactly when the render tree maps the
  element to a render node and, if that render node belongs to a card section, the
  element is the card's rendered element, its first child or its last child.
\<close>

theorem isAddressable_iff:
  "isAddressable e el \<longleftrightarrow>
     (\<exists>rn. findRenderNodeFromElement e el = Some rn \<and>
           (postNode_isCardSection rn \<longrightarrow>
              el = element rn \<or> firstChild e (element rn) = Some el \<or>
              lastChild e (element rn) = Some el))"
  by (auto simp: isAddressable_def Let_def split: option.splits)

text \<open>
  In the example the card's last child and the text node of the first paragraph are
  addressable; the card's middle child and the node outside the editor are not.
\<close>

theorem isAddressable_iff_witness:
  "isAddressable (ex_env True) 7 \<and> \<not> isAddressable (ex_env True) 6 \<and>
   isAddressable (ex_env True) 3 \<and> \<not> isAddressable (ex_env True) 10"
  using isAddressable_iff [of "ex_env True" 7] isAddressable_iff [of "ex_env True" 6]
    isAddressable_iff [of "ex_env True" 3] isAddressable_iff [of "ex_env True" 10]
  by (simp add: ex_defs)

section \<open>From a position to a native endpoint\<close>

text \<open>
  Claim C5: a position in a rendered card section maps to the first child of the
  card's element when its offset is 0 and to the last child otherwise, at native
  offset 0 in both cases. Any two offsets other than 0 map to the same endpoint;
  offset 0 and the offset at the section's length map to different endpoints, for a
  card whose first and last child are different nodes and whose length is not 0.
\<close>

theorem card_endpoint:
  assumes "isCardSection (pos_section p)"
      and "section_renderNode (pos_section p) = Some rn"
  shows "priv_findNodeForPosition e p =
           Inr (if pos_offset p = 0 then firstChild e (element rn)
                else lastChild e (element rn), 0) \<and>
         (\<forall>o1 o2. o1 \<noteq> 0 \<and> o2 \<noteq> 0 \<longrightarrow>
            priv_findNodeForPosition e (p\<lparr>pos_offset := o1\<rparr>) =
            priv_findNodeForPosition e (p\<lparr>pos_offset := o2\<rparr>)) \<and>
         (firstChild e (element rn) \<noteq> lastChild e (element rn) \<and>
          section_length (pos_section p) \<noteq> 0 \<longrightarrow>
            priv_findNodeForPosition e (p\<lparr>pos_offset := 0\<rparr>) \<noteq>
            priv_findNodeForPosition e (p\<lparr>pos_offset := section_length (pos_section p)\<rparr>))"
  using assms by (simp add: priv_findNodeForPosition_def)

text \<open>The card of the example: offset 0 at node 5, offsets 1 and 2 at node 7.\<close>

theorem card_endpoint_witness:
  "isCardSection (pos_section (ex_Position_new ex_Card 1)) \<and>
   section_renderNode (pos_section (ex_Position_new ex_Card 1)) =
     Some \<lparr>element = 4, postNode_isCardSection = True\<rparr> \<and>
   priv_findNodeForPosition (ex_env True) (ex_Position_new ex_Card 1) = Inr (Some 7, 0) \<and>
   priv_findNodeForPosition (ex_env True) (ex_Position_new ex_Card 0) = Inr (Some 5, 0) \<and>
   priv_findNodeForPosition (ex_env True) (ex_Position_new ex_Card 2) = Inr (Some 7, 0)"
  using card_endpoint [of "ex_Position_new ex_Card 1"
      "\<lparr>element = 4, postNode_isCardSection = True\<rparr>" "ex_env True"]
    card_endpoint [of "ex_Position_new ex_Card 0"
      "\<lparr>element = 4, postNode_isCardSection = True\<rparr>" "ex_env True"]
    card_endpoint [of "ex_Position_new ex_Card 2"
      "\<lparr>element = 4, postNode_isCardSection = True\<rparr>" "ex_env True"]
  by (simp add: ex_defs)

section \<open>Selecting no sections\<close>

text \<open>
  Claim C10: \<^verbatim>\<open>selectSections\<close> needs a list that is not empty. On the empty list it
  reads \<^verbatim>\<open>length\<close> of an absent section, which throws; the selection is left as it
  was, neither cleared nor set.
\<close>

theorem selectSections_empty:
  "selectSections e [] sel = (Inl TypeError, sel)"
  by (simp add: selectSections_def js_index_def)

section \<open>Installing a range\<close>

text \<open>
  The selection that \<^verbatim>\<open>_moveToNode\<close> leaves, path by path. The endpoints are valid
  boundary points that come after the start of the document.
\<close>

lemma setStart_fresh:
  assumes "valid_offset e n off" and "bp_before e (document e, 0) (n, off)"
  shows "setStart e (createRange e) (Some n) off =
           Inr \<lparr>range_start = (n, off), range_end = (n, off)\<rparr>"
  using assms by (simp add: setStart_def createRange_def)

lemma moveToNode_forward_state:
  assumes "dir \<noteq> Some BACKWARD"
      and "valid_offset e hn ho" and "valid_offset e tn to'"
      and "bp_before e (document e, 0) (hn, ho)"
      and "\<not> bp_before e (tn, to') (hn, ho)"
  shows "priv_moveToNode e (Some hn) ho (Some tn) to' dir sel =
           (Inr (), \<lparr>sel_ranges = [\<lparr>range_start = (hn, ho), range_end = (tn, to')\<rparr>],
                     anchor = Some (hn, ho), focus = Some (tn, to')\<rparr>)"
  using assms
  by (simp add: priv_moveToNode_def Let_def setStart_fresh setEnd_def addRange_def
      clearSelection_def removeAllRanges_def)

lemma moveToNode_backward_extend:
  assumes "has_extend e"
      and "valid_offset e tn to'"
      and "bp_before e (document e, 0) (tn, to')"
  shows "priv_moveToNode e (Some hn) ho (Some tn) to' (Some BACKWARD) sel =
           (case extend e (addRange (clearSelection sel)
                             \<lparr>range_start = (tn, to'), range_end = (tn, to')\<rparr>) (Some hn) ho of
              Inl err \<Rightarrow> (Inl err, addRange (clearSelection sel)
                             \<lparr>range_start = (tn, to'), range_end = (tn, to')\<rparr>)
            | Inr sel' \<Rightarrow> (Inr (), sel'))"
  using assms by (simp add: priv_moveToNode_def Let_def setStart_fresh)

lemma moveToNode_backward_no_extend_state:
  assumes "\<not> has_extend e"
      and "valid_offset e hn ho" and "valid_offset e tn to'"
      and "bp_before e (document e, 0) (tn, to')"
      and "bp_before e (hn, ho) (tn, to')"
  shows "priv_moveToNode e (Some hn) ho (Some tn) to' (Some BACKWARD) sel =
           (Inr (), \<lparr>sel_ranges = [\<lparr>range_start = (hn, ho), range_end = (hn, ho)\<rparr>],
                     anchor = Some (hn, ho), focus = Some (hn, ho)\<rparr>)"
  using assms
  by (simp add: priv_moveToNode_def Let_def setStart_fresh setEnd_def addRange_def
      clearSelection_def removeAllRanges_def)

subsection \<open>Selecting sections\<close>




subsection \<open>Selecting a range and reading it back\<close>

text \<open>Reading a selection of one range back.\<close>

lemma offsets_not_backward:
  assumes "containsNode e (editor_element e) (Some (fst a))"
      and "\<not> bp_before e f a"
      and "fromNode e (fst a) (snd a) = Inr h"
      and "fromNode e (fst f) (snd f) = Inr t"
  shows "offsets e \<lparr>sel_ranges = [r], anchor = Some a, focus = Some f\<rparr> =
           Inr (NewRange h t (if bp_before e a f then Some FORWARD else collapsed_direction e))"
  using assms
  by (simp add: offsets_def hasCursor_iff_anchor anchorNode_def comparePosition_def)

lemma offsets_backward:
  assumes "containsNode e (editor_element e) (Some (fst a))"
      and "bp_before e f a"
      and "fromNode e (fst f) (snd f) = Inr h"
      and "fromNode e (fst a) (snd a) = Inr t"
  shows "offsets e \<lparr>sel_ranges = [r], anchor = Some a, focus = Some f\<rparr> =
           Inr (NewRange h t (Some BACKWARD))"
  using assms
  by (simp add: offsets_def hasCursor_iff_anchor anchorNode_def comparePosition_def)

lemma extend_after_collapsed_any:
  assumes "valid_offset e hn ho"
  shows "\<exists>r. extend e (addRange (clearSelection sel)
                     \<lparr>range_start = (tn, to'), range_end = (tn, to')\<rparr>) (Some hn) ho =
           Inr \<lparr>sel_ranges = [r], anchor = Some (tn, to'), focus = Some (hn, ho)\<rparr>"
  using assms
  by (simp add: extend_def addRange_def clearSelection_def removeAllRanges_def Let_def)

text \<open>
  The direction of a collapsed range leaves no trace in the selection: whatever the
  direction, the same calls reach the platform with the same arguments.
\<close>

lemma selectRange_collapsed_any_direction:
  "selectRange e (NewRange p p d) sel = selectRange e (NewRange p p d') sel"
  by (auto simp: selectRange_def priv_moveToNode_def Let_def setStart_def setEnd_def
      createRange_def extend_def addRange_def clearSelection_def removeAllRanges_def
      split: sum.splits option.splits prod.splits)

text \<open>
  Claim C2 says that a backward range on a platform without \<^verbatim>\<open>extend\<close> is installed
  as one span from head to tail. \<^verbatim>\<open>_moveToNode\<close> swaps the endpoints of a backward
  range before it looks for \<^verbatim>\<open>extend\<close>, so the fallback sets the start of the range to
  the tail and then its end to the head; the head comes first in the document, and
  the platform lets the start follow the end. In the example, the backward range
  from offset 0 of the first paragraph to offset 2 of the second is installed as a
  range collapsed at the head.
\<close>

theorem selectRange_backward_without_extend:
  "\<not> has_extend (ex_env False) \<and>
   selectRange (ex_env False)
     (NewRange (ex_Position_new ex_P1 0) (ex_Position_new ex_P2 2) (Some BACKWARD)) ex_empty =
     (Inr (), \<lparr>sel_ranges = [\<lparr>range_start = (3, 0), range_end = (3, 0)\<rparr>],
               anchor = Some (3, 0), focus = Some (3, 0)\<rparr>)"
proof -
  have 1: "priv_findNodeForPosition (ex_env False) (ex_Position_new ex_P1 0) = Inr (Some 3, 0)"
    by (simp add: priv_findNodeForPosition_def ex_defs)
  have 2: "priv_findNodeForPosition (ex_env False) (ex_Position_new ex_P2 2) = Inr (Some 9, 2)"
    by (simp add: priv_findNodeForPosition_def ex_defs)
  have 3: "\<not> has_extend (ex_env False)" by (simp add: ex_env_def)
  have 4: "valid_offset (ex_env False) 3 0" "valid_offset (ex_env False) 9 2"
    by (simp_all add: valid_offset_def ex_defs)
  have 5: "bp_before (ex_env False) (document (ex_env False), 0) (9, 2)"
    "bp_before (ex_env False) (3, 0) (9, 2)"
    by (simp_all add: ex_defs)
  show ?thesis
    by (simp add: 3 selectRange_def 1 2 moveToNode_backward_no_extend_state [OF 3 4 5])
qed

text \<open>
  Claim C1, amended. Let a range have head \<open>h\<close> and tail \<open>t\<close> whose native endpoints
  are valid boundary points inside the editor's element, the head's equal to the
  tail's or before it, and let \<^verbatim>\<open>Position.fromNode\<close> map the two endpoints back to \<open>h\<close>
  and \<open>t\<close>. If the range is not backward, or it is backward and the platform has
  \<^verbatim>\<open>extend\<close>, then \<^verbatim>\<open>selectRange\<close> returns normally and \<^verbatim>\<open>offsets\<close> then yields a
  range with the same head and tail. If moreover the head's endpoint comes strictly
  before the tail's and the range carries a direction, \<^verbatim>\<open>offsets\<close> yields that
  direction. A backward range is installed by adding a range collapsed at the
  tail's endpoint and extending it to the head's.
\<close>

theorem selectRange_offsets:
  assumes find_h: "priv_findNodeForPosition e h = Inr (Some hn, ho)"
      and find_t: "priv_findNodeForPosition e t = Inr (Some tn, to')"
      and valid_h: "valid_offset e hn ho" and valid_t: "valid_offset e tn to'"
      and doc_h: "bp_before e (document e, 0) (hn, ho)"
      and doc_t: "bp_before e (document e, 0) (tn, to')"
      and in_h: "containsNode e (editor_element e) (Some hn)"
      and in_t: "containsNode e (editor_element e) (Some tn)"
      and ordered: "\<not> bp_before e (tn, to') (hn, ho)"
      and total: "(hn, ho) = (tn, to') \<or> bp_before e (hn, ho) (tn, to')"
      and back_h: "fromNode e hn ho = Inr h"
      and back_t: "fromNode e tn to' = Inr t"
      and bw: "d = Some BACKWARD \<longrightarrow> has_extend e"
  shows "\<exists>sel' d'. selectRange e (NewRange h t d) sel = (Inr (), sel') \<and>
           offsets e sel' = Inr (NewRange h t d') \<and>
           (bp_before e (hn, ho) (tn, to') \<and> d \<noteq> None \<longrightarrow> d' = d) \<and>
           (d = Some BACKWARD \<longrightarrow>
              extend e (addRange (clearSelection sel)
                          \<lparr>range_start = (tn, to'), range_end = (tn, to')\<rparr>) (Some hn) ho =
                Inr sel')"
proof (cases "d = Some BACKWARD")
  case True
  with bw have ext: "has_extend e" by simp
  from extend_after_collapsed_any [OF valid_h, of sel tn to']
  obtain r where ex: "extend e (addRange (clearSelection sel)
        \<lparr>range_start = (tn, to'), range_end = (tn, to')\<rparr>) (Some hn) ho =
      Inr \<lparr>sel_ranges = [r], anchor = Some (tn, to'), focus = Some (hn, ho)\<rparr>"
    by blast
  let ?sel' = "\<lparr>sel_ranges = [r], anchor = Some (tn, to'), focus = Some (hn, ho)\<rparr>"
  have run: "selectRange e (NewRange h t d) sel = (Inr (), ?sel')"
    using True by (simp add: selectRange_def find_h find_t
        moveToNode_backward_extend [OF ext valid_t doc_t] ex)
  show ?thesis
  proof (cases "bp_before e (hn, ho) (tn, to')")
    case strict: True
    have "offsets e ?sel' = Inr (NewRange h t (Some BACKWARD))"
      using offsets_backward [of e "(tn, to')" "(hn, ho)" h t r] in_t back_h back_t strict
      by simp
    with run ex True show ?thesis by simp
  next
    case False
    with total have same: "(hn, ho) = (tn, to')" by simp
    with ordered have irrefl: "\<not> bp_before e (hn, ho) (tn, to')" by simp
    have "offsets e ?sel' = Inr (NewRange t h (collapsed_direction e))"
      using offsets_not_backward [of e "(tn, to')" "(hn, ho)" t h r] in_t back_h back_t
        irrefl same by simp
    moreover from same back_h back_t have "h = t" by simp
    ultimately have "offsets e ?sel' = Inr (NewRange h t (collapsed_direction e))" by simp
    with run ex True False show ?thesis by simp
  qed
next
  case False
  let ?sel' = "\<lparr>sel_ranges = [\<lparr>range_start = (hn, ho), range_end = (tn, to')\<rparr>],
                anchor = Some (hn, ho), focus = Some (tn, to')\<rparr>"
  have run: "selectRange e (NewRange h t d) sel = (Inr (), ?sel')"
    by (simp add: selectRange_def find_h find_t
        moveToNode_forward_state [OF False valid_h valid_t doc_h ordered])
  have off: "offsets e ?sel' =
      Inr (NewRange h t (if bp_before e (hn, ho) (tn, to') then Some FORWARD
                         else collapsed_direction e))"
    using offsets_not_backward [of e "(hn, ho)" "(tn, to')" h t] in_h back_h back_t ordered
    by simp
  have dir: "d \<noteq> None \<longrightarrow> d = Some FORWARD"
    using False by (cases d) (auto intro: direction.exhaust)
  from run off dir False show ?thesis by auto
qed

text \<open>
  The backward range of the spec's scenario, from offset 0 of the first paragraph
  to offset 2 of the second, on a platform with \<^verbatim>\<open>extend\<close>.
\<close>

theorem selectRange_offsets_witness:
  "selectRange (ex_env True)
     (NewRange (ex_Position_new ex_P1 0) (ex_Position_new ex_P2 2) (Some BACKWARD)) ex_empty =
     (Inr (), \<lparr>sel_ranges = [\<lparr>range_start = (3, 0), range_end = (9, 2)\<rparr>],
               anchor = Some (9, 2), focus = Some (3, 0)\<rparr>) \<and>
   offsets (ex_env True)
     \<lparr>sel_ranges = [\<lparr>range_start = (3, 0), range_end = (9, 2)\<rparr>],
      anchor = Some (9, 2), focus = Some (3, 0)\<rparr> =
     Inr (NewRange (ex_Position_new ex_P1 0) (ex_Position_new ex_P2 2) (Some BACKWARD))"
proof -
  have 1: "priv_findNodeForPosition (ex_env True) (ex_Position_new ex_P1 0) = Inr (Some 3, 0)"
    by (simp add: priv_findNodeForPosition_def ex_defs)
  have 2: "priv_findNodeForPosition (ex_env True) (ex_Position_new ex_P2 2) = Inr (Some 9, 2)"
    by (simp add: priv_findNodeForPosition_def ex_defs)
  have 3: "valid_offset (ex_env True) 3 0" "valid_offset (ex_env True) 9 2"
    by (simp_all add: valid_offset_def ex_defs)
  have 4: "bp_before (ex_env True) (document (ex_env True), 0) (3, 0)"
    "bp_before (ex_env True) (document (ex_env True), 0) (9, 2)"
    "\<not> bp_before (ex_env True) (9, 2) (3, 0)"
    by (simp_all add: ex_defs)
  have strict: "bp_before (ex_env True) (3, 0) (9, 2)"
    by (simp add: ex_defs)
  then have total: "((3::nat), (0::int)) = (9, 2) \<or> bp_before (ex_env True) (3, 0) (9, 2)"
    by simp
  have 5: "containsNode (ex_env True) (editor_element (ex_env True)) (Some 3)"
    "containsNode (ex_env True) (editor_element (ex_env True)) (Some 9)"
    by (simp_all add: ex_defs)
  have 6: "fromNode (ex_env True) 3 0 = Inr (ex_Position_new ex_P1 0)"
    "fromNode (ex_env True) 9 2 = Inr (ex_Position_new ex_P2 2)"
    by (simp_all add: ex_defs)
  have 7: "Some BACKWARD = Some BACKWARD \<longrightarrow> has_extend (ex_env True)"
    by (simp add: ex_defs)
  have 8: "extend (ex_env True)
             (addRange (clearSelection ex_empty) \<lparr>range_start = (9, 2), range_end = (9, 2)\<rparr>)
             (Some 3) 0 =
           Inr \<lparr>sel_ranges = [\<lparr>range_start = (3, 0), range_end = (9, 2)\<rparr>],
                anchor = Some (9, 2), focus = Some (3, 0)\<rparr>"
    by (simp add: extend_def addRange_def clearSelection_def removeAllRanges_def
        valid_offset_def Let_def ex_defs)
  from selectRange_offsets [OF 1 2 3 4(1,2) 5 4(3) total 6 7, of ex_empty] 8 strict
  show ?thesis by auto
qed

text \<open>
  Claim C1 as it stands fails for a collapsed range, also with \<^verbatim>\<open>extend\<close>: anchor and
  focus coincide, and the selection holds no trace of the range's direction.
  Whatever \<^verbatim>\<open>comparePosition\<close> reports for a collapsed selection (no direction, forward
  or backward), the caret in the text CD does not read back with one of its two
  directions.
\<close>

lemma ex_caret_installed:
  "selectRange (ex_env_tie tie) (NewRange ex_caret ex_caret (Some d)) ex_empty =
     (Inr (), \<lparr>sel_ranges = [\<lparr>range_start = (9, 1), range_end = (9, 1)\<rparr>],
               anchor = Some (9, 1), focus = Some (9, 1)\<rparr>)"
proof -
  have find: "priv_findNodeForPosition (ex_env_tie tie) ex_caret = Inr (Some 9, 1)"
    by (simp add: priv_findNodeForPosition_def ex_defs)
  show ?thesis
    by (simp add: selectRange_def find)
       (simp add: priv_moveToNode_def Let_def setStart_def setEnd_def
        createRange_def extend_def addRange_def clearSelection_def removeAllRanges_def
        valid_offset_def ex_env_tie_def ex_env_def ex_nodeLength_def ex_before_def
        ex_empty_def)
qed

lemma ex_caret_offsets:
  "offsets (ex_env_tie tie)
     \<lparr>sel_ranges = [\<lparr>range_start = (9, 1), range_end = (9, 1)\<rparr>],
      anchor = Some (9, 1), focus = Some (9, 1)\<rparr> =
     Inr (NewRange ex_caret ex_caret tie)"
  by (simp add: offsets_def hasCursor_iff_anchor anchorNode_def comparePosition_def
      ex_env_tie_def ex_env_def ex_containsNode_def ex_before_def ex_fromNode_def
      ex_caret_def)

theorem collapsed_direction_not_read_back:
  "has_extend (ex_env_tie None) \<and>
   \<not> reads_back (ex_env_tie None) (NewRange ex_caret ex_caret (Some BACKWARD)) ex_empty \<and>
   has_extend (ex_env_tie (Some FORWARD)) \<and>
   \<not> reads_back (ex_env_tie (Some FORWARD))
       (NewRange ex_caret ex_caret (Some BACKWARD)) ex_empty \<and>
   has_extend (ex_env_tie (Some BACKWARD)) \<and>
   \<not> reads_back (ex_env_tie (Some BACKWARD))
       (NewRange ex_caret ex_caret (Some FORWARD)) ex_empty"
  by (simp add: reads_back_def ex_caret_installed ex_caret_offsets)
     (simp add: ex_env_tie_def ex_env_def)

section \<open>What changes the selection\<close>

text \<open>
  Each query, run as a computation on the selection object, returns what the
  function of the section on queries computes and hands the selection on unchanged:
  its body reaches the selection through the platform's getters only.
\<close>

lemma run_selectionRange:
  "run_state priv_selectionRange_op sel = (priv_selectionRange sel, sel)"
  by (cases "sel_ranges sel")
     (simp_all add: priv_selectionRange_op_def priv_selectionRange_def sel_rangeCount_def
      sel_getRangeAt_def)

lemma run_hasSelection:
  "run_state (priv_hasSelection_op e) sel = (priv_hasSelection e sel, sel)"
  by (simp add: priv_hasSelection_op_def priv_hasSelection_def run_selectionRange
      sel_anchorNode_def sel_focusNode_def split: option.splits)

lemma run_hasCollapsedSelection:
  "run_state (priv_hasCollapsedSelection_op e) sel = (priv_hasCollapsedSelection e sel, sel)"
  by (simp add: priv_hasCollapsedSelection_op_def priv_hasCollapsedSelection_def
      run_selectionRange sel_anchorNode_def split: option.splits)

lemma run_hasCursor:
  "run_state (hasCursor_op e) sel = (hasCursor e sel, sel)"
  by (simp add: hasCursor_op_def hasCursor_def run_hasCollapsedSelection run_hasSelection)

lemma run_offsets:
  "run_state (offsets_op e) sel = (offsets e sel, sel)"
  by (simp add: offsets_op_def offsets_def run_hasCursor sel_comparePosition_def)

lemma run_activeSections:
  "run_state (activeSections_op e) sel = (activeSections e sel, sel)"
  by (simp add: activeSections_op_def activeSections_def run_hasCursor run_offsets)

lemma run_selectedText:
  "run_state (selectedText_op e) sel = (selectedText e sel, sel)"
  by (simp add: selectedText_op_def selectedText_def sel_toString_def)

text \<open>
  \<^verbatim>\<open>_moveToNode\<close> clears the selection first. When it returns, it has added one range
  to the cleared selection, and extended it on the backward path; when it throws,
  the selection is cleared, or cleared with the collapsed range that \<^verbatim>\<open>extend\<close>
  refused to extend.
\<close>

lemma moveToNode_returns:
  assumes "priv_moveToNode e nd off en eo dir sel = (Inr (), sel')"
  shows "(\<exists>r. sel' = addRange (clearSelection sel) r) \<or>
         (\<exists>r n k. extend e (addRange (clearSelection sel) r) n k = Inr sel')"
  using assms
  by (auto simp: priv_moveToNode_def Let_def split: sum.splits if_splits)

lemma moveToNode_throws:
  assumes "priv_moveToNode e nd off en eo dir sel = (Inl err, sel')"
  shows "sel' = clearSelection sel \<or> (\<exists>r. sel' = addRange (clearSelection sel) r)"
  using assms
  by (auto simp: priv_moveToNode_def Let_def split: sum.splits if_splits)

lemma selectRange_returns:
  assumes "selectRange e r sel = (Inr (), sel')"
  shows "(\<exists>r. sel' = addRange (clearSelection sel) r) \<or>
         (\<exists>r n k. extend e (addRange (clearSelection sel) r) n k = Inr sel')"
  using assms moveToNode_returns
  by (auto simp: selectRange_def split: cursor_range.splits sum.splits prod.splits)

lemma selectRange_throws:
  assumes "selectRange e r sel = (Inl err, sel')"
  shows "sel' = sel \<or> sel' = clearSelection sel \<or>
         (\<exists>r. sel' = addRange (clearSelection sel) r)"
  using assms moveToNode_throws
  by (auto simp: selectRange_def split: cursor_range.splits sum.splits prod.splits)

lemma selectSections_returns:
  assumes "selectSections e ss sel = (Inr (), sel')"
  shows "(\<exists>r. sel' = addRange (clearSelection sel) r) \<or>
         (\<exists>r n k. extend e (addRange (clearSelection sel) r) n k = Inr sel')"
  using assms selectRange_returns
  by (auto simp: selectSections_def Let_def split: option.splits)

lemma selectSections_throws:
  assumes "selectSections e ss sel = (Inl err, sel')"
  shows "sel' = sel \<or> sel' = clearSelection sel \<or>
         (\<exists>r. sel' = addRange (clearSelection sel) r)"
  using assms selectRange_throws
  by (auto simp: selectSections_def Let_def split: option.splits)

lemma one_range_added:
  "length (sel_ranges (addRange (clearSelection sel) r)) = 1"
  by (simp add: clearSelection_def removeAllRanges_def addRange_def)

lemma one_range_extended:
  assumes "extend e s n k = Inr s'"
  shows "length (sel_ranges s') = 1"
  using assms
  by (auto simp: extend_def Let_def split: option.splits if_splits)

lemma command_frame:
  assumes returns: "\<And>s'. f sel = (Inr (), s') \<Longrightarrow>
             (\<exists>r. s' = addRange (clearSelection sel) r) \<or>
             (\<exists>r n k. extend e (addRange (clearSelection sel) r) n k = Inr s')"
      and throws: "\<And>err s'. f sel = (Inl err, s') \<Longrightarrow>
             s' = sel \<or> s' = clearSelection sel \<or>
             (\<exists>r. s' = addRange (clearSelection sel) r)"
  shows "(fst (f sel) = Inr () \<longrightarrow>
            length (sel_ranges (snd (f sel))) = 1 \<and>
            ((\<exists>r. snd (f sel) = addRange (clearSelection sel) r) \<or>
             (\<exists>r n k. extend e (addRange (clearSelection sel) r) n k = Inr (snd (f sel))))) \<and>
         (fst (f sel) \<noteq> Inr () \<longrightarrow>
            snd (f sel) = sel \<or> snd (f sel) = clearSelection sel \<or>
            (\<exists>r. snd (f sel) = addRange (clearSelection sel) r))"
proof (cases "f sel")
  case (Pair res s')
  show ?thesis
  proof (cases res)
    case (Inl err)
    with Pair throws [of err s'] show ?thesis by simp
  next
    case (Inr u)
    with Pair have eq: "f sel = (Inr (), s')" by simp
    from returns [OF eq] have shape:
      "(\<exists>r. s' = addRange (clearSelection sel) r) \<or>
       (\<exists>r n k. extend e (addRange (clearSelection sel) r) n k = Inr s')" .
    then have "length (sel_ranges s') = 1"
      using one_range_added one_range_extended by blast
    with shape eq show ?thesis by simp
  qed
qed

lemma run_call_command:
  "run_state (call e (SelectRange r)) sel =
     (Command_result (fst (selectRange e r sel)), snd (selectRange e r sel))"
  "run_state (call e (MoveToPosition p)) sel =
     (Command_result (fst (selectRange e (NewRange p p None) sel)),
      snd (selectRange e (NewRange p p None) sel))"
  "run_state (call e (MoveToSection s k)) sel =
     (Command_result
        (fst (selectRange e (NewRange (Position_new e s k) (Position_new e s k) None) sel)),
      snd (selectRange e (NewRange (Position_new e s k) (Position_new e s k) None) sel))"
  "run_state (call e (SelectSections ss)) sel =
     (Command_result (fst (selectSections e ss sel)), snd (selectSections e ss sel))"
  by (simp_all add: selectRange_op_def moveToPosition_op_def moveToSection_op_def
      selectSections_op_def moveToPosition_def moveToSection_def split_def)

text \<open>
  Claim C9: \<^verbatim>\<open>hasCursor\<close>, \<^verbatim>\<open>hasSelection\<close>, \<^verbatim>\<open>isAddressable\<close>, \<^verbatim>\<open>offsets\<close>,
  \<^verbatim>\<open>activeSections\<close> and \<^verbatim>\<open>selectedText\<close> leave the native selection as it is.
  \<^verbatim>\<open>clearSelection\<close> leaves the cleared selection. Each of \<^verbatim>\<open>selectRange\<close>,
  \<^verbatim>\<open>moveToPosition\<close>, \<^verbatim>\<open>moveToSection\<close> and \<^verbatim>\<open>selectSections\<close>, when it returns, has
  cleared the selection and installed exactly one range (added, and extended on the
  backward path); when it throws, the selection is untouched (it threw before it
  reached the platform), or cleared, or cleared with one range added.
\<close>

theorem call_frame:
  "(is_query c \<longrightarrow> snd (run_state (call e c) sel) = sel) \<and>
   (c = ClearSelection \<longrightarrow>
      run_state (call e c) sel = (Command_result (Inr ()), clearSelection sel)) \<and>
   (\<not> is_query c \<and> c \<noteq> ClearSelection \<longrightarrow>
      (fst (run_state (call e c) sel) = Command_result (Inr ()) \<longrightarrow>
         length (sel_ranges (snd (run_state (call e c) sel))) = 1 \<and>
         ((\<exists>r. snd (run_state (call e c) sel) = addRange (clearSelection sel) r) \<or>
          (\<exists>r n k. extend e (addRange (clearSelection sel) r) n k =
                     Inr (snd (run_state (call e c) sel))))) \<and>
      (fst (run_state (call e c) sel) \<noteq> Command_result (Inr ()) \<longrightarrow>
         snd (run_state (call e c) sel) = sel \<or>
         snd (run_state (call e c) sel) = clearSelection sel \<or>
         (\<exists>r. snd (run_state (call e c) sel) = addRange (clearSelection sel) r)))"
proof (cases c)
  case HasCursor
  then show ?thesis by (simp add: run_hasCursor)
next
  case HasSelection
  then show ?thesis by (simp add: hasSelection_op_def run_hasSelection)
next
  case (IsAddressable el)
  then show ?thesis by (simp add: isAddressable_op_def)
next
  case Offsets
  then show ?thesis by (simp add: run_offsets)
next
  case ActiveSections
  then show ?thesis by (simp add: run_activeSections)
next
  case SelectedText
  then show ?thesis by (simp add: run_selectedText)
next
  case ClearSelection
  then show ?thesis
    by (simp add: clearSelection_op_def sel_removeAllRanges_def clearSelection_def)
next
  case (SelectRange r)
  show ?thesis
    unfolding SelectRange run_call_command
    using command_frame [of "selectRange e r" sel e, OF selectRange_returns selectRange_throws]
    by simp
next
  case (MoveToPosition p)
  show ?thesis
    unfolding MoveToPosition run_call_command
    using command_frame [of "selectRange e (NewRange p p None)" sel e,
        OF selectRange_returns selectRange_throws]
    by simp
next
  case (MoveToSection s k)
  show ?thesis
    unfolding MoveToSection run_call_command
    using command_frame
      [of "selectRange e (NewRange (Position_new e s k) (Position_new e s k) None)" sel e,
        OF selectRange_returns selectRange_throws]
    by simp
next
  case (SelectSections ss)
  show ?thesis
    unfolding SelectSections run_call_command
    using command_frame [of "selectSections e ss" sel e,
        OF selectSections_returns selectSections_throws]
    by simp
qed

text \<open>
  On a selection across the example: reading the offsets leaves it; clearing it
  leaves no range; moving the caret into the text CD replaces it by one collapsed
  range; selecting the backward range of the scenario replaces it by one range
  whose anchor is the tail's endpoint.
\<close>

theorem call_frame_witness:
  "is_query Offsets \<and>
   snd (run_state (call (ex_env True) Offsets) ex_across) = ex_across \<and>
   run_state (call (ex_env True) ClearSelection) ex_across =
     (Command_result (Inr ()), ex_empty) \<and>
   \<not> is_query (MoveToSection ex_P2 1) \<and>
   run_state (call (ex_env True) (MoveToSection ex_P2 1)) ex_across =
     (Command_result (Inr ()),
      \<lparr>sel_ranges = [\<lparr>range_start = (9, 1), range_end = (9, 1)\<rparr>],
       anchor = Some (9, 1), focus = Some (9, 1)\<rparr>) \<and>
   length (sel_ranges (snd (run_state (call (ex_env True) (MoveToSection ex_P2 1))
                              ex_across))) = 1 \<and>
   run_state (call (ex_env True)
       (SelectRange (NewRange (ex_Position_new ex_P1 0) (ex_Position_new ex_P2 1)
                       (Some BACKWARD)))) ex_across =
     (Command_result (Inr ()),
      \<lparr>sel_ranges = [\<lparr>range_start = (3, 0), range_end = (9, 1)\<rparr>],
       anchor = Some (9, 1), focus = Some (3, 0)\<rparr>) \<and>
   length (sel_ranges (snd (run_state (call (ex_env True)
       (SelectRange (NewRange (ex_Position_new ex_P1 0) (ex_Position_new ex_P2 1)
                       (Some BACKWARD)))) ex_across))) = 1"
proof -
  have find1: "priv_findNodeForPosition (ex_env True) (ex_Position_new ex_P1 0) =
      Inr (Some 3, 0)"
    by (simp add: priv_findNodeForPosition_def ex_defs)
  have find2: "priv_findNodeForPosition (ex_env True) (ex_Position_new ex_P2 1) =
      Inr (Some 9, 1)"
    by (simp add: priv_findNodeForPosition_def ex_defs)
  have pos: "Position_new (ex_env True) ex_P2 1 = ex_Position_new ex_P2 1"
    by (simp add: ex_env_def)
  have move: "selectRange (ex_env True)
      (NewRange (ex_Position_new ex_P2 1) (ex_Position_new ex_P2 1) None) ex_across =
      (Inr (), \<lparr>sel_ranges = [\<lparr>range_start = (9, 1), range_end = (9, 1)\<rparr>],
                anchor = Some (9, 1), focus = Some (9, 1)\<rparr>)"
    by (simp add: selectRange_def find2)
       (simp add: priv_moveToNode_def Let_def setStart_def setEnd_def createRange_def
        addRange_def clearSelection_def removeAllRanges_def valid_offset_def
        ex_env_def ex_nodeLength_def ex_before_def)
  have select: "selectRange (ex_env True)
      (NewRange (ex_Position_new ex_P1 0) (ex_Position_new ex_P2 1) (Some BACKWARD))
      ex_across =
      (Inr (), \<lparr>sel_ranges = [\<lparr>range_start = (3, 0), range_end = (9, 1)\<rparr>],
                anchor = Some (9, 1), focus = Some (3, 0)\<rparr>)"
    by (simp add: selectRange_def find1 find2)
       (simp add: priv_moveToNode_def Let_def setStart_def extend_def createRange_def
        addRange_def clearSelection_def removeAllRanges_def valid_offset_def
        ex_env_def ex_nodeLength_def ex_before_def)
  have clear: "clearSelection ex_across = ex_empty"
    by (simp add: clearSelection_def removeAllRanges_def ex_empty_def)
  have run_move: "run_state (call (ex_env True) (MoveToSection ex_P2 1)) ex_across =
      (Command_result (Inr ()),
       \<lparr>sel_ranges = [\<lparr>range_start = (9, 1), range_end = (9, 1)\<rparr>],
        anchor = Some (9, 1), focus = Some (9, 1)\<rparr>)"
    by (simp add: run_call_command pos move del: call.simps)
  have run_select: "run_state (call (ex_env True)
       (SelectRange (NewRange (ex_Position_new ex_P1 0) (ex_Position_new ex_P2 1)
                       (Some BACKWARD)))) ex_across =
      (Command_result (Inr ()),
       \<lparr>sel_ranges = [\<lparr>range_start = (3, 0), range_end = (9, 1)\<rparr>],
        anchor = Some (9, 1), focus = Some (3, 0)\<rparr>)"
    by (simp add: run_call_command select del: call.simps)
  from call_frame [of Offsets "ex_env True" ex_across]
    call_frame [of ClearSelection "ex_env True" ex_across]
    call_frame [of "MoveToSection ex_P2 1" "ex_env True" ex_across]
    call_frame [of "SelectRange (NewRange (ex_Position_new ex_P1 0)
        (ex_Position_new ex_P2 1) (Some BACKWARD))" "ex_env True" ex_across]
  show ?thesis
    by (simp add: clear run_move run_select del: call.simps)
qed

end
